theory Spec2Isabelle
  imports Complex_Main
begin

section \<open>JavaScript numbers\<close>

text \<open>
  Every number of \<^verbatim>\<open>main.js\<close> is a JavaScript number. The model keeps the three
  special values of that type apart from the finite ones, because the program's behaviour
  on a page that cannot scroll is decided by them (\<^verbatim>\<open>0 / 0\<close> is \<^verbatim>\<open>NaN\<close>, and
  every comparison with \<^verbatim>\<open>NaN\<close> is false). Finite values are real numbers and finite
  arithmetic is exact: binary64 rounding, overflow to an infinity and the sign of zero are
  not modelled.
\<close>

datatype jsnum = Fin real | PInf | NInf | NaN

fun jneg :: "jsnum \<Rightarrow> jsnum" where
  "jneg (Fin a) = Fin (- a)"
| "jneg PInf = NInf"
| "jneg NInf = PInf"
| "jneg NaN = NaN"

fun jadd :: "jsnum \<Rightarrow> jsnum \<Rightarrow> jsnum" where
  "jadd (Fin a) (Fin b) = Fin (a + b)"
| "jadd NaN _ = NaN"
| "jadd _ NaN = NaN"
| "jadd PInf NInf = NaN"
| "jadd NInf PInf = NaN"
| "jadd PInf _ = PInf"
| "jadd _ PInf = PInf"
| "jadd NInf _ = NInf"
| "jadd _ NInf = NInf"

definition jsub :: "jsnum \<Rightarrow> jsnum \<Rightarrow> jsnum" where
  "jsub a b = jadd a (jneg b)"

fun jmul :: "jsnum \<Rightarrow> jsnum \<Rightarrow> jsnum" where
  "jmul (Fin a) (Fin b) = Fin (a * b)"
| "jmul NaN _ = NaN"
| "jmul _ NaN = NaN"
| "jmul (Fin a) y = (if a = 0 then NaN else if 0 < a then y else jneg y)"
| "jmul x (Fin b) = (if b = 0 then NaN else if 0 < b then x else jneg x)"
| "jmul PInf y = y"
| "jmul NInf y = jneg y"

fun jdiv :: "jsnum \<Rightarrow> jsnum \<Rightarrow> jsnum" where
  "jdiv (Fin a) (Fin b) =
     (if b \<noteq> 0 then Fin (a / b)
      else if a = 0 then NaN
      else if 0 < a then PInf else NInf)"
| "jdiv NaN _ = NaN"
| "jdiv _ NaN = NaN"
| "jdiv (Fin a) _ = Fin 0"
| "jdiv x (Fin b) = (if 0 \<le> b then x else jneg x)"
| "jdiv _ _ = NaN"

fun jlt :: "jsnum \<Rightarrow> jsnum \<Rightarrow> bool" where
  "jlt (Fin a) (Fin b) = (a < b)"
| "jlt NaN _ = False"
| "jlt _ NaN = False"
| "jlt PInf _ = False"
| "jlt _ NInf = False"
| "jlt _ _ = True"

fun Math_floor :: "jsnum \<Rightarrow> jsnum" where
  "Math_floor (Fin a) = Fin (of_int \<lfloor>a\<rfloor>)"
| "Math_floor x = x"

definition Math_min :: "jsnum \<Rightarrow> jsnum \<Rightarrow> jsnum" where
  "Math_min a b = (if a = NaN \<or> b = NaN then NaN else if jlt a b then a else b)"

definition Math_max :: "jsnum \<Rightarrow> jsnum \<Rightarrow> jsnum" where
  "Math_max a b = (if a = NaN \<or> b = NaN then NaN else if jlt a b then b else a)"

text \<open>\<^verbatim>\<open>Math.pow(x, n)\<close> for a natural exponent.\<close>

definition Math_pow :: "jsnum \<Rightarrow> nat \<Rightarrow> jsnum" where
  "Math_pow x n =
     (if n = 0 then Fin 1
      else case x of
        Fin a \<Rightarrow> Fin (a ^ n)
      | PInf \<Rightarrow> PInf
      | NInf \<Rightarrow> (if odd n then NInf else PInf)
      | NaN \<Rightarrow> NaN)"

fun Math_sin :: "jsnum \<Rightarrow> jsnum" where
  "Math_sin (Fin a) = Fin (sin a)"
| "Math_sin _ = NaN"

fun Math_cos :: "jsnum \<Rightarrow> jsnum" where
  "Math_cos (Fin a) = Fin (cos a)"
| "Math_cos _ = NaN"

text \<open>\<^verbatim>\<open>Math.hypot\<close>: an infinite argument wins over \<^verbatim>\<open>NaN\<close>.\<close>

fun Math_hypot :: "jsnum \<Rightarrow> jsnum \<Rightarrow> jsnum" where
  "Math_hypot (Fin a) (Fin b) = Fin (sqrt (a * a + b * b))"
| "Math_hypot PInf _ = PInf"
| "Math_hypot NInf _ = PInf"
| "Math_hypot _ PInf = PInf"
| "Math_hypot _ NInf = PInf"
| "Math_hypot _ _ = NaN"

definition Math_PI :: jsnum where
  "Math_PI = Fin pi"

section \<open>Vectors of the rendering library\<close>

datatype 'a vec3 = Vec3 (vx: 'a) (vy: 'a) (vz: 'a)

text \<open>
  \<^verbatim>\<open>new THREE.Vector3(a, b, c)\<close> with numeric literals: the literals are finite numbers.
\<close>

definition Vector3 :: "real \<Rightarrow> real \<Rightarrow> real \<Rightarrow> real vec3" where
  "Vector3 a b c = Vec3 a b c"

definition js_vec :: "real vec3 \<Rightarrow> jsnum vec3" where
  "js_vec v = map_vec3 Fin v"

text \<open>
  The two interpolation methods of \<^verbatim>\<open>THREE.Vector3\<close> the program calls. The library
  computes \<^verbatim>\<open>v1.x + (v2.x - v1.x) * alpha\<close> in \<^verbatim>\<open>lerpVectors\<close> and
  \<^verbatim>\<open>this.x += (v.x - this.x) * alpha\<close> in \<^verbatim>\<open>lerp\<close>, on each component.
\<close>

definition lerp1 :: "jsnum \<Rightarrow> jsnum \<Rightarrow> jsnum \<Rightarrow> jsnum" where
  "lerp1 a b alpha = jadd a (jmul (jsub b a) alpha)"

definition lerpVectors :: "jsnum vec3 \<Rightarrow> jsnum vec3 \<Rightarrow> jsnum \<Rightarrow> jsnum vec3" where
  "lerpVectors v1 v2 alpha =
     Vec3 (lerp1 (vx v1) (vx v2) alpha) (lerp1 (vy v1) (vy v2) alpha) (lerp1 (vz v1) (vz v2) alpha)"

definition lerp :: "jsnum vec3 \<Rightarrow> jsnum vec3 \<Rightarrow> jsnum \<Rightarrow> jsnum vec3" where
  "lerp this v alpha =
     Vec3 (lerp1 (vx this) (vx v) alpha) (lerp1 (vy this) (vy v) alpha) (lerp1 (vz this) (vz v) alpha)"

section \<open>Configuration\<close>

record 'a pose =
  position :: "'a vec3"
  rotation :: "'a vec3"

definition fixedCamera_position :: "real vec3" where
  "fixedCamera_position = Vector3 0 2 20"

definition fixedCamera_target :: "real vec3" where
  "fixedCamera_target = Vector3 0 0 0"

definition fixedCamera_fov :: real where
  "fixedCamera_fov = 35"

definition aircraftPositions :: "real pose list" where
  "aircraftPositions =
    [\<lparr>position = Vector3 10 0 0, rotation = Vector3 1.57 0 0\<rparr>,
     \<lparr>position = Vector3 (-2) 0 3, rotation = Vector3 0.6 3.14 (-0.1)\<rparr>,
     \<lparr>position = Vector3 (-2) 0 0, rotation = Vector3 0 1.5 (-0.1)\<rparr>,
     \<lparr>position = Vector3 0 0 8, rotation = Vector3 0.3 2.6 (-0.15)\<rparr>,
     \<lparr>position = Vector3 0 (-3) 0, rotation = Vector3 (-1.5) 0.4 0.2\<rparr>,
     \<lparr>position = Vector3 1 (-1) 4, rotation = Vector3 0.7 (-0.6) (-0.1)\<rparr>,
     \<lparr>position = Vector3 0 (-2) 0, rotation = Vector3 0.5 2.9 (-0.5)\<rparr>]"

text \<open>
  \<^verbatim>\<open>CONFIG.aircraftPositions[i]\<close> for a number \<open>i\<close>: the element when \<open>i\<close> is an integer
  index of the array, \<^verbatim>\<open>undefined\<close> (here \<open>None\<close>) otherwise.
\<close>

fun js_index :: "'a list \<Rightarrow> jsnum \<Rightarrow> 'a option" where
  "js_index xs (Fin r) =
     (if r = of_int \<lfloor>r\<rfloor> \<and> 0 \<le> r \<and> nat \<lfloor>r\<rfloor> < length xs then Some (xs ! nat \<lfloor>r\<rfloor>) else None)"
| "js_index xs _ = None"

section \<open>Program state\<close>

datatype error = TypeError

text \<open>
  A call either returns, or throws after the assignments it had already made: both
  outcomes carry the state the call leaves behind.
\<close>

datatype 'a outcome = Returned 'a | Threw error 'a

fun state_of :: "'a outcome \<Rightarrow> 'a" where
  "state_of (Returned s) = s"
| "state_of (Threw e s) = s"

text \<open>
  The module's global variables, and the fields of the camera, of the orbit controls and of
  the page elements that the modelled functions read or assign. \<open>aircraft\<close> is
  \<open>None\<close> until the model has loaded. \<open>hands\<close>, \<open>videoElement\<close> and
  \<open>handCanvas\<close> say whether the tracker, the video element, and the canvas with its
  drawing context, exist (are not \<^verbatim>\<open>null\<close>). \<open>overlay_display\<close> is the common
  \<^verbatim>\<open>style.display\<close> of the video, the canvas, the indicator and the status line.
  The last three fields record what the program asked of the browser: the alerts shown,
  the number of camera requests and the number of detection loops started.
\<close>

datatype stream = Live | Stopped

record world =
  scrollProgress :: jsnum
  currentSection :: jsnum
  targetCameraPosition :: "jsnum vec3"
  targetCameraTarget :: "jsnum vec3"
  targetAircraftPosition :: "jsnum vec3"
  targetAircraftRotation :: "jsnum vec3"
  handControlEnabled :: bool
  handPosition :: "jsnum vec3"
  handRotation :: "jsnum vec3"
  handZoom :: jsnum
  isHandDetected :: bool
  hands :: bool
  videoElement :: bool
  handCanvas :: bool
  camera_position :: "jsnum vec3"
  camera_fov :: jsnum
  controls_target :: "jsnum vec3"
  aircraft :: "jsnum pose option"
  btn_innerHTML :: string
  btn_background :: string
  btn_color :: string
  video_srcObject :: "stream option"
  overlay_display :: bool
  alerts :: "string list"
  getUserMedia_calls :: nat
  detectHands_calls :: nat

text \<open>
  The state after \<^verbatim>\<open>init\<close>: the initialisers of the global variables, the camera
  built from the fixed configuration, the targets copied from it and from keyframe 0, the
  orbit controls' default target, and the elements made by \<^verbatim>\<open>setupHandControlUI\<close>.
\<close>

definition init_world :: world where
  "init_world =
    \<lparr>scrollProgress = Fin 0,
     currentSection = Fin 0,
     targetCameraPosition = js_vec fixedCamera_position,
     targetCameraTarget = js_vec fixedCamera_target,
     targetAircraftPosition = js_vec (position (aircraftPositions ! 0)),
     targetAircraftRotation = js_vec (rotation (aircraftPositions ! 0)),
     handControlEnabled = False,
     handPosition = Vec3 (Fin 0.5) (Fin 0.5) (Fin 0),
     handRotation = Vec3 (Fin 0) (Fin 0) (Fin 0),
     handZoom = Fin 1.0,
     isHandDetected = False,
     hands = False,
     videoElement = True,
     handCanvas = True,
     camera_position = js_vec fixedCamera_position,
     camera_fov = Fin fixedCamera_fov,
     controls_target = Vec3 (Fin 0) (Fin 0) (Fin 0),
     aircraft = None,
     btn_innerHTML =
       ''<svg viewBox=\"0 0 24 24\" fill=\"none\" stroke=\"currentColor\" strok'' @
       ''e-width=\"2\" width=\"24\" height=\"24\"><path d=\"M18 11V6a2 2 0 0 0-'' @
       ''2-2 2 2 0 0 0-2 2v1M14 10V4a2 2 0 0 0-2-2 2 2 0 0 0-2 2v6M10 10.5V6a2 '' @
       ''2 0 0 0-2-2 2 2 0 0 0-2 2v8\"/><path d=\"M18 8a2 2 0 0 1 2 2v7a5 5 0 0'' @
       '' 1-5 5h-3.5a5 5 0 0 1-4-2l-4.4-5.8a2 2 0 0 1 .7-3 2 2 0 0 1 2.2.4L6 12'' @
       ''V6\"/></svg>'' @
       ''<span>HAND CONTROL</span>'',
     btn_background = ''rgba(255,255,255,0.2)'',
     btn_color = ''#1a1a2e'',
     video_srcObject = None,
     overlay_display = False,
     alerts = [],
     getUserMedia_calls = 0,
     detectHands_calls = 0\<rparr>"

text \<open>
  The success callback of \<^verbatim>\<open>loadModel\<close> (and of \<^verbatim>\<open>loadModelAlternative\<close>): the
  aircraft exists from then on, placed at keyframe 0.
\<close>

definition loadModel :: "world \<Rightarrow> world" where
  "loadModel w =
     w\<lparr>aircraft := Some \<lparr>position = js_vec (position (aircraftPositions ! 0)),
                           rotation = js_vec (rotation (aircraftPositions ! 0))\<rparr>\<rparr>"

section \<open>Scroll handler\<close>

text \<open>The arrow function \<^verbatim>\<open>ease\<close> of \<^verbatim>\<open>onScroll\<close>.\<close>

definition ease :: "jsnum \<Rightarrow> jsnum" where
  "ease t =
     (if jlt t (Fin 0.5) then jmul (jmul (jmul (Fin 4) t) t) t
      else jsub (Fin 1) (jdiv (Math_pow (jadd (jmul (Fin (- 2)) t) (Fin 2)) 3) (Fin 2)))"

text \<open>The constants \<^verbatim>\<open>total\<close> (here \<open>total_count\<close>), \<^verbatim>\<open>secProg\<close> and \<^verbatim>\<open>blend\<close> of
  \<^verbatim>\<open>onScroll\<close>.\<close>

definition total_count :: jsnum where
  "total_count = Fin (real (length aircraftPositions))"

definition secProg :: "jsnum \<Rightarrow> jsnum" where
  "secProg progress = jmul progress (jsub total_count (Fin 1))"

definition blend :: "jsnum \<Rightarrow> jsnum" where
  "blend progress = jsub (secProg progress) (Math_floor (secProg progress))"

text \<open>
  \<^verbatim>\<open>onScroll\<close>, given the three numbers it reads from the window and the document.
  The calls that only restyle page elements (scroll thumb, navigation, HUD, info cards,
  parallax layers) assign none of the fields of \<open>world\<close> and are left out.
\<close>

definition onScroll :: "jsnum \<Rightarrow> jsnum \<Rightarrow> jsnum \<Rightarrow> world \<Rightarrow> world outcome" where
  "onScroll scrollY scrollHeight innerHeight w =
    (let scrollTop = scrollY;
         docHeight = jsub scrollHeight innerHeight;
         progress = jdiv scrollTop docHeight;
         w1 = w\<lparr>scrollProgress := progress,
                currentSection := Math_floor (secProg progress),
                targetCameraPosition := js_vec fixedCamera_position,
                targetCameraTarget := js_vec fixedCamera_target,
                camera_fov := Fin fixedCamera_fov\<rparr>
     in if jlt (currentSection w1) (jsub total_count (Fin 1)) then
          (case (js_index aircraftPositions (currentSection w1),
                 js_index aircraftPositions (jadd (currentSection w1) (Fin 1))) of
             (Some cAir, Some nAir) \<Rightarrow>
               (let e = ease (blend progress)
                in Returned (w1\<lparr>
                     targetAircraftPosition :=
                       lerpVectors (js_vec (position cAir)) (js_vec (position nAir)) e,
                     targetAircraftRotation :=
                       lerpVectors (js_vec (rotation cAir)) (js_vec (rotation nAir)) e\<rparr>))
           | _ \<Rightarrow> Threw TypeError w1)
        else
          (case js_index aircraftPositions (jsub total_count (Fin 1)) of
             Some lastAir \<Rightarrow>
               Returned (w1\<lparr>targetAircraftPosition := js_vec (position lastAir),
                            targetAircraftRotation := js_vec (rotation lastAir)\<rparr>)
           | None \<Rightarrow> Threw TypeError w1))"

section \<open>Hand tracking\<close>

text \<open>
  What the tracker hands to \<^verbatim>\<open>onHandResults\<close>: \<^verbatim>\<open>results.multiHandLandmarks\<close>,
  absent or a list of hands, each hand a list of landmarks.
\<close>

type_synonym hand_results = "jsnum vec3 list list option"

definition avgFingerDist ::
  "jsnum vec3 \<Rightarrow> jsnum vec3 \<Rightarrow> jsnum vec3 \<Rightarrow> jsnum vec3 \<Rightarrow> jsnum vec3 \<Rightarrow> jsnum" where
  "avgFingerDist indexTip middleTip ringTip pinky palm =
     jdiv
       (jadd (jadd (jadd
          (Math_hypot (jsub (vx indexTip) (vx palm)) (jsub (vy indexTip) (vy palm)))
          (Math_hypot (jsub (vx middleTip) (vx palm)) (jsub (vy middleTip) (vy palm))))
          (Math_hypot (jsub (vx ringTip) (vx palm)) (jsub (vy ringTip) (vy palm))))
          (Math_hypot (jsub (vx pinky) (vx palm)) (jsub (vy pinky) (vy palm))))
       (Fin 4)"

definition normalizedOpen :: "jsnum \<Rightarrow> jsnum" where
  "normalizedOpen d = Math_max (Fin 0) (Math_min (Fin 1) (jdiv (jsub d (Fin 0.08)) (Fin 0.15)))"

definition targetZoom :: "jsnum \<Rightarrow> jsnum" where
  "targetZoom d = jadd (Fin 0.5) (jmul (normalizedOpen d) (Fin 1.5))"

text \<open>
  \<^verbatim>\<open>onHandResults\<close>. The landmarks read are \<^verbatim>\<open>lm[0]\<close>, \<^verbatim>\<open>lm[4]\<close>, \<^verbatim>\<open>lm[8]\<close>,
  \<^verbatim>\<open>lm[9]\<close>, \<^verbatim>\<open>lm[12]\<close>, \<^verbatim>\<open>lm[16]\<close> and \<^verbatim>\<open>lm[20]\<close>. With fewer than 21
  landmarks \<^verbatim>\<open>lm[20]\<close> is \<^verbatim>\<open>undefined\<close>, and reading a coordinate of an undefined
  landmark throws while \<^verbatim>\<open>avgFingerDist\<close> is computed, which is after
  \<^verbatim>\<open>isHandDetected = true\<close> and before every other assignment. Drawing on the canvas
  and restyling the indicator and the status line are left out.
\<close>

definition onHandResults :: "hand_results \<Rightarrow> world \<Rightarrow> world outcome" where
  "onHandResults results w =
    (if \<not> handCanvas w then Returned w
     else case results of
       Some (lm # _) \<Rightarrow>
         (let w1 = w\<lparr>isHandDetected := True\<rparr>
          in if length lm \<le> 20 then Threw TypeError w1
             else
               (let indexTip = lm ! 8; thumbTip = lm ! 4; wrist = lm ! 0; palm = lm ! 9;
                    pinky = lm ! 20; middleTip = lm ! 12; ringTip = lm ! 16;
                    d = avgFingerDist indexTip middleTip ringTip pinky palm
                in Returned (w1\<lparr>
                     handZoom := lerp1 (handZoom w1) (targetZoom d) (Fin 0.1),
                     handPosition :=
                       Vec3 (lerp1 (vx (handPosition w1)) (vx indexTip) (Fin 0.15))
                            (lerp1 (vy (handPosition w1)) (vy indexTip) (Fin 0.15))
                            (lerp1 (vz (handPosition w1)) (vz indexTip) (Fin 0.15)),
                     handRotation :=
                       Vec3 (lerp1 (vx (handRotation w1))
                               (jmul (jsub (vy palm) (vy wrist)) (Fin 2)) (Fin 0.15))
                            (lerp1 (vy (handRotation w1))
                               (jmul (jsub (vx indexTip) (Fin 0.5)) (Fin 2)) (Fin 0.15))
                            (lerp1 (vz (handRotation w1))
                               (jmul (jsub (vy thumbTip) (vy pinky)) (Fin 2)) (Fin 0.15))\<rparr>)))
     | _ \<Rightarrow> Returned (w\<lparr>isHandDetected := False\<rparr>))"

text \<open>
  The detection loop of \<^verbatim>\<open>detectHands\<close>, one element of the list for each frame the
  tracker answers. A pass returns without scheduling the next one when the mode is off or
  the tracker or the video element is missing; an exception of a pass is swallowed by the
  \<^verbatim>\<open>try\<close> around \<^verbatim>\<open>hands.send\<close>, and the assignments made before it stay.
\<close>

fun detectHands :: "hand_results list \<Rightarrow> world \<Rightarrow> world" where
  "detectHands [] w = w"
| "detectHands (r # rs) w =
     (if \<not> handControlEnabled w \<or> \<not> hands w \<or> \<not> videoElement w then w
      else detectHands rs (state_of (onHandResults r w)))"

section \<open>Switching gesture mode\<close>

text \<open>
  What the browser answers to the three awaited operations of \<^verbatim>\<open>toggleHandControl\<close>.
  \<^verbatim>\<open>loadMediaPipe\<close> resolves when the tracker's class is already there or its three
  scripts load, and creates the tracker then; it rejects when a script fails to load.
\<close>

datatype awaited = Resolves | Rejects

record browser =
  window_Hands :: bool
  scripts_load :: bool
  getUserMedia_result :: awaited
  play_result :: awaited

definition loadMediaPipe :: "browser \<Rightarrow> world \<Rightarrow> awaited \<times> world" where
  "loadMediaPipe env w =
     (if window_Hands env \<or> scripts_load env then (Resolves, w\<lparr>hands := True\<rparr>)
      else (Rejects, w))"

text \<open>The \<^verbatim>\<open>catch\<close> block of \<^verbatim>\<open>toggleHandControl\<close>.\<close>

definition toggle_catch :: "world \<Rightarrow> world" where
  "toggle_catch w =
     w\<lparr>alerts := alerts w @ [''Camera access denied''],
       btn_innerHTML := ''<span>HAND CONTROL</span>''\<rparr>"

text \<open>
  \<^verbatim>\<open>toggleHandControl\<close>. The call of \<^verbatim>\<open>detectHands\<close> that ends the \<^verbatim>\<open>try\<close>
  block is not awaited: it is counted here, and the loop it starts is \<open>detectHands\<close>
  above.
\<close>

definition toggleHandControl :: "browser \<Rightarrow> world \<Rightarrow> world" where
  "toggleHandControl env w =
    (if \<not> handControlEnabled w then
       (let w1 = w\<lparr>btn_innerHTML := ''<span>LOADING...</span>''\<rparr>
        in case loadMediaPipe env w1 of
          (Rejects, w2) \<Rightarrow> toggle_catch w2
        | (Resolves, w2) \<Rightarrow>
            (let w3 = w2\<lparr>getUserMedia_calls := Suc (getUserMedia_calls w2)\<rparr>
             in case getUserMedia_result env of
               Rejects \<Rightarrow> toggle_catch w3
             | Resolves \<Rightarrow>
                 (let w4 = w3\<lparr>video_srcObject := Some Live\<rparr>
                  in case play_result env of
                    Rejects \<Rightarrow> toggle_catch w4
                  | Resolves \<Rightarrow>
                      w4\<lparr>handControlEnabled := True,
                         overlay_display := True,
                         btn_innerHTML := ''<span>STOP CONTROL</span>'',
                         btn_background := ''rgba(255,100,100,0.2)'',
                         btn_color := ''#c44'',
                         detectHands_calls := Suc (detectHands_calls w4)\<rparr>)))
     else
       w\<lparr>handControlEnabled := False,
         video_srcObject := map_option (\<lambda>_. Stopped) (video_srcObject w),
         overlay_display := False,
         btn_innerHTML := ''<span>HAND CONTROL</span>'',
         btn_background := ''rgba(255,255,255,0.2)'',
         btn_color := ''#1a1a2e''\<rparr>)"

section \<open>Render frame\<close>

text \<open>The constant \<^verbatim>\<open>targetFov\<close> of the gesture branch.\<close>

definition targetFov :: "jsnum \<Rightarrow> jsnum" where
  "targetFov zoom = jdiv (Fin 50) zoom"

text \<open>
  \<^verbatim>\<open>animate\<close> at clock reading \<open>elapsed\<close>. The animation mixer, the update of the
  orbit controls (disabled, and without damping input) and the draw call assign none of the
  fields of \<open>world\<close>.
\<close>

definition animate :: "jsnum \<Rightarrow> world \<Rightarrow> world" where
  "animate elapsed w =
    (let w1 = w\<lparr>camera_position := lerp (camera_position w) (targetCameraPosition w) (Fin 0.05),
                controls_target := lerp (controls_target w) (targetCameraTarget w) (Fin 0.05)\<rparr>
     in case aircraft w1 of
       None \<Rightarrow> w1
     | Some a \<Rightarrow>
        (let w2 =
          (if handControlEnabled w1 \<and> isHandDetected w1 then
             (let hx = jmul (jsub (Fin 0.5) (vx (handPosition w1))) (Fin 10);
                  hy = jmul (jsub (Fin 0.5) (vy (handPosition w1))) (Fin 6);
                  hz = jmul (vz (handPosition w1)) (Fin (- 5));
                  r = rotation a
              in w1\<lparr>aircraft := Some
                      \<lparr>position = lerp (position a) (Vec3 hx hy hz) (Fin 0.08),
                       rotation =
                         Vec3 (lerp1 (vx r) (jmul (vx (handRotation w1)) (Fin 0.8)) (Fin 0.06))
                              (lerp1 (vy r) (jmul (vy (handRotation w1)) (Fin 1.5)) (Fin 0.06))
                              (lerp1 (vz r) (jmul (vz (handRotation w1)) (Fin 0.6)) (Fin 0.06))\<rparr>,
                    camera_fov := lerp1 (camera_fov w1) (targetFov (handZoom w1)) (Fin 0.1)\<rparr>)
           else
             (let t = targetAircraftPosition w1;
                  tp = Vec3
                    (jadd (vx t) (jmul (Math_sin (jadd (jmul elapsed (Fin 0.5))
                       (jmul (jmul (scrollProgress w1) Math_PI) (Fin 2)))) (Fin 0.5)))
                    (jadd (vy t) (jmul (Math_cos (jadd (jmul elapsed (Fin 0.7))
                       (jmul (scrollProgress w1) Math_PI))) (Fin 0.3)))
                    (jadd (vz t) (jmul (Math_sin (jadd (jmul elapsed (Fin 0.4))
                       (jmul (jmul (scrollProgress w1) Math_PI) (Fin 1.5)))) (Fin 0.4)));
                  tr = targetAircraftRotation w1;
                  r = rotation a;
                  rotY = jadd (vy tr) (jmul (Math_sin (jmul elapsed (Fin 0.3))) (Fin 0.1))
              in w1\<lparr>aircraft := Some
                      \<lparr>position = lerp (position a) tp (Fin 0.04),
                       rotation =
                         Vec3 (lerp1 (vx r)
                                 (jadd (vx tr) (jmul (Math_cos (jmul elapsed (Fin 0.6))) (Fin 0.03)))
                                 (Fin 0.04))
                              (lerp1 (vy r) rotY (Fin 0.04))
                              (lerp1 (vz r)
                                 (jadd (vz tr) (jmul (Math_sin (jmul elapsed (Fin 0.8))) (Fin 0.05)))
                                 (Fin 0.04))\<rparr>\<rparr>))
         in case aircraft w2 of
           None \<Rightarrow> w2
         | Some b \<Rightarrow>
             w2\<lparr>aircraft := Some (b\<lparr>position :=
                 Vec3 (vx (position b))
                      (jadd (vy (position b)) (jmul (Math_sin (jmul elapsed (Fin 0.8))) (Fin 0.003)))
                      (vz (position b))\<rparr>)\<rparr>))"

section \<open>Window resize\<close>

text \<open>
  \<^verbatim>\<open>onWindowResize\<close>, given the window's width and height. Below the aspect ratio
  \<open>16 / 9\<close> it enlarges the field of view, up to 65. The camera's aspect ratio, its
  projection matrix and the renderer's size are not fields of \<open>world\<close>.
\<close>

definition onWindowResize :: "jsnum \<Rightarrow> jsnum \<Rightarrow> world \<Rightarrow> world" where
  "onWindowResize innerWidth innerHeight w =
    (let ar = jdiv innerWidth innerHeight
     in if jlt ar (jdiv (Fin 16) (Fin 9))
        then w\<lparr>camera_fov :=
               Math_min (jmul (camera_fov w)
                           (jadd (Fin 1) (jmul (jsub (jdiv (Fin 16) (Fin 9)) ar) (Fin 0.15))))
                        (Fin 65)\<rparr>
        else w)"

section \<open>The properties in the words of the specification\<close>

subsection \<open>Scroll mapping and pose interpolation\<close>

text \<open>The cubic ease and the component-wise linear interpolation, on real numbers.\<close>

definition ease_spec :: "real \<Rightarrow> real" where
  "ease_spec t = (if t < 1 / 2 then 4 * t ^ 3 else 1 - (- 2 * t + 2) ^ 3 / 2)"

definition lerp_spec :: "real vec3 \<Rightarrow> real vec3 \<Rightarrow> real \<Rightarrow> real vec3" where
  "lerp_spec a b t =
     Vec3 (vx a + (vx b - vx a) * t) (vy a + (vy b - vy a) * t) (vz a + (vz b - vz a) * t)"

text \<open>A vector with a component that is not a number.\<close>

definition has_NaN :: "jsnum vec3 \<Rightarrow> bool" where
  "has_NaN v = (vx v = NaN \<or> vy v = NaN \<or> vz v = NaN)"

subsection \<open>Gesture signal filter\<close>

text \<open>
  The clamp, the normalized openness and the target zoom; the distance of two landmarks in
  the image plane and the average distance of the four fingertips from the palm centre.
\<close>

definition clamp_spec :: "real \<Rightarrow> real \<Rightarrow> real \<Rightarrow> real" where
  "clamp_spec x lo hi = max lo (min hi x)"

definition normalized_spec :: "real \<Rightarrow> real" where
  "normalized_spec d = clamp_spec ((d - 0.08) / 0.15) 0 1"

definition zoom_spec :: "real \<Rightarrow> real" where
  "zoom_spec d = 0.5 + normalized_spec d * 1.5"

definition dist_spec :: "real vec3 \<Rightarrow> real vec3 \<Rightarrow> real" where
  "dist_spec a b = sqrt ((vx a - vx b) * (vx a - vx b) + (vy a - vy b) * (vy a - vy b))"

definition openness_spec :: "real vec3 list \<Rightarrow> real" where
  "openness_spec lm =
     (dist_spec (lm ! 8) (lm ! 9) + dist_spec (lm ! 12) (lm ! 9)
      + dist_spec (lm ! 16) (lm ! 9) + dist_spec (lm ! 20) (lm ! 9)) / 4"

text \<open>The zoom signal is a finite number between 0.5 and 2.0.\<close>

fun zoom_in_range :: "jsnum \<Rightarrow> bool" where
  "zoom_in_range (Fin z) = (1 / 2 \<le> z \<and> z \<le> 2)"
| "zoom_in_range _ = False"

text \<open>
  The value after \<open>k\<close> steps of exponential smoothing at rate \<open>\<alpha>\<close>, from \<open>s0\<close> toward
  the target \<open>T\<close>.
\<close>

definition smoothed :: "real \<Rightarrow> real \<Rightarrow> real \<Rightarrow> nat \<Rightarrow> real" where
  "smoothed \<alpha> s0 T k = T + (1 - \<alpha>) ^ k * (s0 - T)"

text \<open>A detection tick returned at least one hand.\<close>

definition hand_present :: "hand_results \<Rightarrow> bool" where
  "hand_present r = (case r of Some hs \<Rightarrow> 0 < length hs | None \<Rightarrow> False)"

subsection \<open>Motion blender\<close>

text \<open>
  The transform mapped from the hand signals, the transform derived from the scroll
  targets with its idle oscillation, and one frame's move of a pose toward a target
  transform (with the vertical breathing term every frame adds).
\<close>

definition gesture_target :: "jsnum vec3 \<Rightarrow> jsnum vec3 \<Rightarrow> jsnum pose" where
  "gesture_target hp hr =
     \<lparr>position = Vec3 (jmul (jsub (Fin 0.5) (vx hp)) (Fin 10))
                      (jmul (jsub (Fin 0.5) (vy hp)) (Fin 6))
                      (jmul (vz hp) (Fin (- 5))),
      rotation = Vec3 (jmul (vx hr) (Fin 0.8)) (jmul (vy hr) (Fin 1.5)) (jmul (vz hr) (Fin 0.6))\<rparr>"

definition scroll_target :: "jsnum vec3 \<Rightarrow> jsnum vec3 \<Rightarrow> jsnum \<Rightarrow> jsnum \<Rightarrow> jsnum pose" where
  "scroll_target tp tr progress elapsed =
     \<lparr>position =
        Vec3 (jadd (vx tp) (jmul (Math_sin (jadd (jmul elapsed (Fin 0.5))
                (jmul (jmul progress Math_PI) (Fin 2)))) (Fin 0.5)))
             (jadd (vy tp) (jmul (Math_cos (jadd (jmul elapsed (Fin 0.7))
                (jmul progress Math_PI))) (Fin 0.3)))
             (jadd (vz tp) (jmul (Math_sin (jadd (jmul elapsed (Fin 0.4))
                (jmul (jmul progress Math_PI) (Fin 1.5)))) (Fin 0.4))),
      rotation =
        Vec3 (jadd (vx tr) (jmul (Math_cos (jmul elapsed (Fin 0.6))) (Fin 0.03)))
             (jadd (vy tr) (jmul (Math_sin (jmul elapsed (Fin 0.3))) (Fin 0.1)))
             (jadd (vz tr) (jmul (Math_sin (jmul elapsed (Fin 0.8))) (Fin 0.05)))\<rparr>"

definition follow :: "jsnum pose \<Rightarrow> jsnum pose \<Rightarrow> jsnum \<Rightarrow> jsnum \<Rightarrow> jsnum \<Rightarrow> jsnum pose" where
  "follow a target kp kr elapsed =
     \<lparr>position =
        Vec3 (lerp1 (vx (position a)) (vx (position target)) kp)
             (jadd (lerp1 (vy (position a)) (vy (position target)) kp)
                (jmul (Math_sin (jmul elapsed (Fin 0.8))) (Fin 0.003)))
             (lerp1 (vz (position a)) (vz (position target)) kp),
      rotation =
        Vec3 (lerp1 (vx (rotation a)) (vx (rotation target)) kr)
             (lerp1 (vy (rotation a)) (vy (rotation target)) kr)
             (lerp1 (vz (rotation a)) (vz (rotation target)) kr)\<rparr>"

section \<open>Inputs\<close>

text \<open>
  Tracker results whose coordinates are finite numbers, a browser that grants the camera
  and one that denies it, and two hands of 21 landmarks: one with every landmark at the
  origin, one with the index fingertip at distance 1 from the palm centre.
\<close>

definition js_results :: "real vec3 list list option \<Rightarrow> hand_results" where
  "js_results r = map_option (map (map js_vec)) r"

definition ok_browser :: browser where
  "ok_browser = \<lparr>window_Hands = False, scripts_load = True,
                  getUserMedia_result = Resolves, play_result = Resolves\<rparr>"

definition denied_browser :: browser where
  "denied_browser = \<lparr>window_Hands = False, scripts_load = True,
                      getUserMedia_result = Rejects, play_result = Resolves\<rparr>"

definition closed_fist :: "real vec3 list" where
  "closed_fist = replicate 21 (Vec3 0 0 0)"

definition open_hand :: "real vec3 list" where
  "open_hand = (replicate 21 (Vec3 0 0 0))[8 := Vec3 1 0 0]"

text \<open>
  A state the program reaches: model loaded, gesture mode switched on, one tick with the
  closed hand, one frame, one tick without a hand.
\<close>

definition hand_lost_world :: world where
  "hand_lost_world =
     detectHands [js_results None]
       (animate (Fin 0)
          (detectHands [js_results (Some [closed_fist])]
             (toggleHandControl ok_browser (loadModel init_world))))"

section \<open>Helper lemmas\<close>

lemma ease_Fin: "ease (Fin t) = Fin (ease_spec t)"
  by (simp add: ease_def ease_spec_def jsub_def Math_pow_def power3_eq_cube)

lemma ease_spec_mono:
  assumes "0 \<le> s" "s \<le> t" "t \<le> 1"
  shows "ease_spec s \<le> ease_spec t"
proof -
  have low: "4 * a ^ 3 \<le> 4 * b ^ 3" if "0 \<le> a" "a \<le> b" for a b :: real
    using that by (simp add: power_mono)
  have high: "1 - (- 2 * a + 2) ^ 3 / 2 \<le> 1 - (- 2 * b + 2) ^ 3 / 2"
    if "a \<le> b" "b \<le> 1" for a b :: real
  proof -
    have "(- 2 * b + 2) ^ 3 \<le> (- 2 * a + 2) ^ 3"
      using that by (intro power_mono) auto
    then show ?thesis by simp
  qed
  have cross: "4 * a ^ 3 \<le> 1 - (- 2 * b + 2) ^ 3 / 2"
    if "0 \<le> a" "a < 1 / 2" "1 / 2 \<le> b" "b \<le> 1" for a b :: real
  proof -
    have "a ^ 3 \<le> (1 / 2) ^ 3"
      using that by (intro power_mono) auto
    then have l: "4 * a ^ 3 \<le> 1 / 2" by (simp add: power3_eq_cube)
    have "(- 2 * b + 2) ^ 3 \<le> 1 ^ 3"
      using that by (intro power_mono) auto
    then have "1 / 2 \<le> 1 - (- 2 * b + 2) ^ 3 / 2" by simp
    with l show ?thesis by linarith
  qed
  show ?thesis
    using assms low [of s t] high [of s t] cross [of s t]
    by (auto simp: ease_spec_def)
qed

lemma length_aircraftPositions: "length aircraftPositions = 7"
  by (simp add: aircraftPositions_def)

lemma total_eq: "total_count = Fin 7"
  by (simp add: total_count_def length_aircraftPositions)

lemma secProg_Fin: "secProg (Fin p) = Fin (p * 6)"
  by (simp add: secProg_def total_eq jsub_def)

lemma blend_Fin: "blend (Fin p) = Fin (p * 6 - of_int \<lfloor>p * 6\<rfloor>)"
  by (simp add: blend_def secProg_Fin jsub_def)

lemma js_index_int:
  "0 \<le> i \<Longrightarrow> nat i < length xs \<Longrightarrow> js_index xs (Fin (of_int i)) = Some (xs ! nat i)"
  by simp

lemma lerpVectors_Fin:
  "lerpVectors (js_vec a) (js_vec b) (Fin t) = js_vec (lerp_spec a b t)"
  by (cases a; cases b) (simp add: lerpVectors_def js_vec_def lerp_spec_def lerp1_def jsub_def)

lemma floor_section_bounds:
  fixes p :: real
  assumes "0 \<le> p" "p \<le> 1"
  shows "0 \<le> \<lfloor>p * 6\<rfloor>" "\<lfloor>p * 6\<rfloor> \<le> 6" "\<lfloor>p * 6\<rfloor> = 6 \<longleftrightarrow> p = 1" "p < 1 \<Longrightarrow> \<lfloor>p * 6\<rfloor> \<le> 5"
proof -
  show "0 \<le> \<lfloor>p * 6\<rfloor>" using assms by simp
  show "\<lfloor>p * 6\<rfloor> \<le> 6" using assms by (simp add: floor_le_iff)
  show "\<lfloor>p * 6\<rfloor> = 6 \<longleftrightarrow> p = 1" using assms by (auto simp: floor_eq_iff)
  show "p < 1 \<Longrightarrow> \<lfloor>p * 6\<rfloor> \<le> 5" using assms by (simp add: floor_le_iff)
qed

lemma onScroll_interp:
  assumes prog: "jdiv scrollY (jsub scrollHeight innerHeight) = Fin p"
    and p: "0 \<le> p" "p < 1"
  shows "onScroll scrollY scrollHeight innerHeight w =
    Returned (w\<lparr>scrollProgress := Fin p,
                currentSection := Fin (of_int \<lfloor>p * 6\<rfloor>),
                targetCameraPosition := js_vec fixedCamera_position,
                targetCameraTarget := js_vec fixedCamera_target,
                camera_fov := Fin fixedCamera_fov,
                targetAircraftPosition :=
                  js_vec (lerp_spec (position (aircraftPositions ! nat \<lfloor>p * 6\<rfloor>))
                    (position (aircraftPositions ! (nat \<lfloor>p * 6\<rfloor> + 1)))
                    (ease_spec (p * 6 - of_int \<lfloor>p * 6\<rfloor>))),
                targetAircraftRotation :=
                  js_vec (lerp_spec (rotation (aircraftPositions ! nat \<lfloor>p * 6\<rfloor>))
                    (rotation (aircraftPositions ! (nat \<lfloor>p * 6\<rfloor> + 1)))
                    (ease_spec (p * 6 - of_int \<lfloor>p * 6\<rfloor>)))\<rparr>)"
proof -
  have b: "0 \<le> \<lfloor>p * 6\<rfloor>" "\<lfloor>p * 6\<rfloor> \<le> 5"
    using floor_section_bounds [of p] p by simp_all
  have lt: "(of_int \<lfloor>p * 6\<rfloor> :: real) < 6"
    using b by linarith
  have n0: "nat \<lfloor>p * 6\<rfloor> < length aircraftPositions"
    unfolding length_aircraftPositions using b by linarith
  have n1: "nat (\<lfloor>p * 6\<rfloor> + 1) < length aircraftPositions"
    unfolding length_aircraftPositions using b by linarith
  have i0: "js_index aircraftPositions (Fin (of_int \<lfloor>p * 6\<rfloor>)) = Some (aircraftPositions ! nat \<lfloor>p * 6\<rfloor>)"
    using b(1) n0 by (rule js_index_int)
  have s1: "0 \<le> \<lfloor>p * 6\<rfloor> + 1"
    using b by linarith
  have "js_index aircraftPositions (Fin (of_int (\<lfloor>p * 6\<rfloor> + 1))) = Some (aircraftPositions ! nat (\<lfloor>p * 6\<rfloor> + 1))"
    using s1 n1 by (rule js_index_int)
  moreover have "nat (\<lfloor>p * 6\<rfloor> + 1) = nat \<lfloor>p * 6\<rfloor> + 1"
    using b by linarith
  ultimately have i1: "js_index aircraftPositions (Fin (of_int \<lfloor>p * 6\<rfloor> + 1)) = Some (aircraftPositions ! (nat \<lfloor>p * 6\<rfloor> + 1))"
    by simp
  show ?thesis
    unfolding onScroll_def Let_def prog
    using lt i0 i1
    by (simp add: secProg_Fin blend_Fin total_eq jsub_def ease_Fin lerpVectors_Fin del: js_index.simps)
qed

lemma onScroll_end:
  assumes prog: "jdiv scrollY (jsub scrollHeight innerHeight) = Fin 1"
  shows "onScroll scrollY scrollHeight innerHeight w =
    Returned (w\<lparr>scrollProgress := Fin 1,
                currentSection := Fin 6,
                targetCameraPosition := js_vec fixedCamera_position,
                targetCameraTarget := js_vec fixedCamera_target,
                camera_fov := Fin fixedCamera_fov,
                targetAircraftPosition := js_vec (position (aircraftPositions ! 6)),
                targetAircraftRotation := js_vec (rotation (aircraftPositions ! 6))\<rparr>)"
proof -
  have "js_index aircraftPositions (Fin (of_int 6)) = Some (aircraftPositions ! nat 6)"
    by (intro js_index_int) (simp_all add: length_aircraftPositions)
  then have i: "js_index aircraftPositions (Fin 6) = Some (aircraftPositions ! 6)"
    by simp
  show ?thesis
    unfolding onScroll_def Let_def prog
    using i by (simp add: secProg_Fin total_eq jsub_def del: js_index.simps)
qed


lemma jadd_NaN_right: "jadd x NaN = NaN"
  by (cases x) simp_all

lemma jmul_NaN_right: "jmul x NaN = NaN"
  by (cases x) simp_all

lemma lerp1_NaN_target: "lerp1 a NaN alpha = NaN"
  by (simp add: lerp1_def jsub_def jadd_NaN_right)

lemma onScroll_zero_range:
  assumes "jsub scrollHeight innerHeight = Fin 0"
  shows "onScroll (Fin 0) scrollHeight innerHeight w =
    Returned (w\<lparr>scrollProgress := NaN,
                currentSection := NaN,
                targetCameraPosition := js_vec fixedCamera_position,
                targetCameraTarget := js_vec fixedCamera_target,
                camera_fov := Fin fixedCamera_fov,
                targetAircraftPosition := js_vec (position (aircraftPositions ! 6)),
                targetAircraftRotation := js_vec (rotation (aircraftPositions ! 6))\<rparr>)"
proof -
  have "js_index aircraftPositions (Fin (of_int 6)) = Some (aircraftPositions ! nat 6)"
    by (rule js_index_int) (simp_all add: length_aircraftPositions)
  then have i: "js_index aircraftPositions (Fin 6) = Some (aircraftPositions ! 6)"
    by simp
  show ?thesis
    unfolding onScroll_def Let_def assms
    using i by (simp add: secProg_def total_eq jsub_def del: js_index.simps)
qed

lemma lerp1_Fin: "lerp1 (Fin a) (Fin b) (Fin t) = Fin (a + (b - a) * t)"
  by (simp add: lerp1_def jsub_def)

lemma normalizedOpen_Fin: "normalizedOpen (Fin d) = Fin (normalized_spec d)"
  by (simp add: normalizedOpen_def normalized_spec_def clamp_spec_def Math_max_def Math_min_def jsub_def
      max_def min_def)

lemma targetZoom_Fin: "targetZoom (Fin d) = Fin (zoom_spec d)"
  by (simp add: targetZoom_def zoom_spec_def normalizedOpen_Fin)

lemma normalized_spec_range: "0 \<le> normalized_spec d" "normalized_spec d \<le> 1"
  by (simp_all add: normalized_spec_def clamp_spec_def)

lemma zoom_spec_range: "1 / 2 \<le> zoom_spec d" "zoom_spec d \<le> 2"
  using normalized_spec_range [of d] by (simp_all add: zoom_spec_def)

lemma avgFingerDist_Fin:
  "avgFingerDist (js_vec (lm ! 8)) (js_vec (lm ! 12)) (js_vec (lm ! 16)) (js_vec (lm ! 20)) (js_vec (lm ! 9))
     = Fin (openness_spec lm)"
  by (cases "lm ! 8"; cases "lm ! 12"; cases "lm ! 16"; cases "lm ! 20"; cases "lm ! 9")
     (simp add: avgFingerDist_def openness_spec_def dist_spec_def js_vec_def jsub_def)

lemma js_vec_sel [simp]:
  "vx (js_vec v) = Fin (vx v)" "vy (js_vec v) = Fin (vy v)" "vz (js_vec v) = Fin (vz v)"
  by (cases v; simp add: js_vec_def)+

lemma js_vec_Vec3: "js_vec (Vec3 a b c) = Vec3 (Fin a) (Fin b) (Fin c)"
  by (simp add: js_vec_def)

lemma onHandResults_hand:
  assumes "handCanvas w" "20 < length lm"
  shows "onHandResults (js_results (Some (lm # hs))) w =
    Returned (w\<lparr>isHandDetected := True,
      handZoom := lerp1 (handZoom w) (Fin (zoom_spec (openness_spec lm))) (Fin 0.1),
      handPosition :=
        Vec3 (lerp1 (vx (handPosition w)) (Fin (vx (lm ! 8))) (Fin 0.15))
             (lerp1 (vy (handPosition w)) (Fin (vy (lm ! 8))) (Fin 0.15))
             (lerp1 (vz (handPosition w)) (Fin (vz (lm ! 8))) (Fin 0.15)),
      handRotation :=
        Vec3 (lerp1 (vx (handRotation w)) (Fin ((vy (lm ! 9) - vy (lm ! 0)) * 2)) (Fin 0.15))
             (lerp1 (vy (handRotation w)) (Fin ((vx (lm ! 8) - 0.5) * 2)) (Fin 0.15))
             (lerp1 (vz (handRotation w)) (Fin ((vy (lm ! 4) - vy (lm ! 20)) * 2)) (Fin 0.15))\<rparr>)"
proof -
  have "0 < length lm"
    using assms(2) by linarith
  then show ?thesis
    using assms
    by (simp add: onHandResults_def js_results_def Let_def avgFingerDist_Fin targetZoom_Fin jsub_def)
qed

lemma onHandResults_handZoom_cases:
  "handZoom (state_of (onHandResults (js_results r) w)) = handZoom w
   \<or> (\<exists>d. handZoom (state_of (onHandResults (js_results r) w)) = lerp1 (handZoom w) (Fin (zoom_spec d)) (Fin 0.1))"
proof (cases "handCanvas w")
  case False
  then show ?thesis by (simp add: onHandResults_def)
next
  case canvas: True
  show ?thesis
  proof (cases r)
    case None
    then show ?thesis by (simp add: onHandResults_def js_results_def)
  next
    case (Some hs)
    show ?thesis
    proof (cases hs)
      case Nil
      with Some show ?thesis by (simp add: onHandResults_def js_results_def)
    next
      case (Cons lm rest)
      show ?thesis
      proof (cases "20 < length lm")
        case True
        show ?thesis
          unfolding Some Cons onHandResults_hand [OF canvas True] by auto
      next
        case False
        then show ?thesis
          unfolding Some Cons by (simp add: onHandResults_def js_results_def)
      qed
    qed
  qed
qed

lemma zoom_step_in_range:
  assumes "zoom_in_range z"
  shows "zoom_in_range (lerp1 z (Fin (zoom_spec d)) (Fin 0.1))"
proof -
  obtain a where z: "z = Fin a" and a: "1 / 2 \<le> a" "a \<le> 2"
    using assms by (cases z) auto
  have "1 / 2 \<le> a + (zoom_spec d - a) * 0.1"
    using a zoom_spec_range [of d] by argo
  moreover have "a + (zoom_spec d - a) * 0.1 \<le> 2"
    using a zoom_spec_range [of d] by argo
  ultimately show ?thesis
    unfolding z lerp1_Fin by simp
qed

lemma onHandResults_zoom_in_range:
  assumes "zoom_in_range (handZoom w)"
  shows "zoom_in_range (handZoom (state_of (onHandResults (js_results r) w)))"
  using onHandResults_handZoom_cases [of r w] assms zoom_step_in_range
  by auto

lemma detectHands_zoom_in_range:
  "zoom_in_range (handZoom w) \<Longrightarrow> zoom_in_range (handZoom (detectHands (map js_results rs) w))"
proof (induction rs arbitrary: w)
  case Nil
  then show ?case by simp
next
  case (Cons r rs)
  show ?case
  proof (cases "\<not> handControlEnabled w \<or> \<not> hands w \<or> \<not> videoElement w")
    case True
    then show ?thesis using Cons.prems by auto
  next
    case False
    then show ?thesis
      using Cons.IH [OF onHandResults_zoom_in_range [OF Cons.prems, of r]] by simp
  qed
qed

lemma smoothed_0: "smoothed \<alpha> s T 0 = s"
  by (simp add: smoothed_def)

lemma smoothed_shift: "smoothed \<alpha> (s + (T - s) * \<alpha>) T k = smoothed \<alpha> s T (Suc k)"
  by (simp add: smoothed_def algebra_simps)

lemma smoothed_step: "smoothed \<alpha> s T (Suc k) = smoothed \<alpha> s T k + (T - smoothed \<alpha> s T k) * \<alpha>"
  by (simp add: smoothed_def algebra_simps)

lemma smoothed_distance: "\<bar>smoothed \<alpha> s T k - T\<bar> = \<bar>1 - \<alpha>\<bar> ^ k * \<bar>s - T\<bar>"
  by (simp add: smoothed_def abs_mult power_abs)

lemma smoothed_tendsto:
  assumes "0 < \<alpha>" "\<alpha> < 2"
  shows "(\<lambda>k. smoothed \<alpha> s T k) \<longlonglongrightarrow> T"
proof -
  have "\<bar>1 - \<alpha>\<bar> < 1"
    using assms by simp
  then have "(\<lambda>k. (1 - \<alpha>) ^ k) \<longlonglongrightarrow> 0"
    by (rule LIMSEQ_abs_realpow_zero2)
  then have "(\<lambda>k. (1 - \<alpha>) ^ k * (s - T)) \<longlonglongrightarrow> 0 * (s - T)"
    by (rule tendsto_mult_right)
  then have "(\<lambda>k. T + (1 - \<alpha>) ^ k * (s - T)) \<longlonglongrightarrow> T + 0 * (s - T)"
    by (rule tendsto_add [OF tendsto_const])
  then show ?thesis
    by (simp add: smoothed_def)
qed

lemma detectHands_repeat:
  assumes "handControlEnabled w" "hands w" "videoElement w" "handCanvas w" "20 < length lm"
    and "handZoom w = Fin z0" "handPosition w = js_vec p0" "handRotation w = js_vec r0"
  shows "handZoom (detectHands (replicate k (js_results (Some (lm # hs)))) w)
      = Fin (smoothed 0.1 z0 (zoom_spec (openness_spec lm)) k)
    \<and> handPosition (detectHands (replicate k (js_results (Some (lm # hs)))) w)
      = Vec3 (Fin (smoothed 0.15 (vx p0) (vx (lm ! 8)) k))
             (Fin (smoothed 0.15 (vy p0) (vy (lm ! 8)) k))
             (Fin (smoothed 0.15 (vz p0) (vz (lm ! 8)) k))
    \<and> handRotation (detectHands (replicate k (js_results (Some (lm # hs)))) w)
      = Vec3 (Fin (smoothed 0.15 (vx r0) ((vy (lm ! 9) - vy (lm ! 0)) * 2) k))
             (Fin (smoothed 0.15 (vy r0) ((vx (lm ! 8) - 0.5) * 2) k))
             (Fin (smoothed 0.15 (vz r0) ((vy (lm ! 4) - vy (lm ! 20)) * 2) k))"
  using assms
proof (induction k arbitrary: w z0 p0 r0)
  case 0
  then show ?case
    by (cases p0; cases r0) (simp add: smoothed_0 js_vec_def)
next
  case (Suc k)
  let ?w = "state_of (onHandResults (js_results (Some (lm # hs))) w)"
  have step: "onHandResults (js_results (Some (lm # hs))) w = Returned ?w"
    using onHandResults_hand [OF Suc.prems(4,5)] by simp
  have g: "handControlEnabled ?w" "hands ?w" "videoElement ?w" "handCanvas ?w"
    using Suc.prems(1-4) by (simp_all add: onHandResults_hand [OF Suc.prems(4,5)])
  have z: "handZoom ?w = Fin (z0 + (zoom_spec (openness_spec lm) - z0) * 0.1)"
    by (simp add: onHandResults_hand [OF Suc.prems(4,5)] Suc.prems(6) lerp1_Fin)
  have p: "handPosition ?w =
      js_vec (Vec3 (vx p0 + (vx (lm ! 8) - vx p0) * 0.15)
                   (vy p0 + (vy (lm ! 8) - vy p0) * 0.15)
                   (vz p0 + (vz (lm ! 8) - vz p0) * 0.15))"
    by (simp add: onHandResults_hand [OF Suc.prems(4,5)] Suc.prems(7) lerp1_Fin js_vec_Vec3)
  have r: "handRotation ?w =
      js_vec (Vec3 (vx r0 + ((vy (lm ! 9) - vy (lm ! 0)) * 2 - vx r0) * 0.15)
                   (vy r0 + ((vx (lm ! 8) - 0.5) * 2 - vy r0) * 0.15)
                   (vz r0 + ((vy (lm ! 4) - vy (lm ! 20)) * 2 - vz r0) * 0.15))"
    by (simp add: onHandResults_hand [OF Suc.prems(4,5)] Suc.prems(8) lerp1_Fin js_vec_Vec3)
  have unfold: "detectHands (replicate (Suc k) (js_results (Some (lm # hs)))) w
      = detectHands (replicate k (js_results (Some (lm # hs)))) ?w"
    using Suc.prems(1-3) by simp
  show ?case
    unfolding unfold
    using Suc.IH [OF g Suc.prems(5) z p r]
    by (simp only: vec3.sel smoothed_shift)
qed

lemma animate_aircraft:
  "aircraft w = Some a \<Longrightarrow>
   aircraft (animate elapsed w) =
     Some (if handControlEnabled w \<and> isHandDetected w
           then follow a (gesture_target (handPosition w) (handRotation w))
                  (Fin 0.08) (Fin 0.06) elapsed
           else follow a (scroll_target (targetAircraftPosition w) (targetAircraftRotation w)
                  (scrollProgress w) elapsed) (Fin 0.04) (Fin 0.04) elapsed)"
  by (simp add: animate_def follow_def gesture_target_def scroll_target_def lerp_def Let_def)

lemma onScroll_fov: "camera_fov (state_of (onScroll sy sh ih w)) = Fin fixedCamera_fov"
  by (simp add: onScroll_def Let_def split: option.splits)

lemma onHandResults_detected:
  "handCanvas w \<Longrightarrow> isHandDetected (state_of (onHandResults r w)) = hand_present r"
  by (auto simp: onHandResults_def hand_present_def Let_def split: option.splits list.splits)

lemma world_after_tick:
  "detectHands [js_results (Some [closed_fist])] (toggleHandControl ok_browser (loadModel init_world))
   = (toggleHandControl ok_browser (loadModel init_world))
       \<lparr>isHandDetected := True,
        handZoom := Fin (19 / 20),
        handPosition := Vec3 (Fin (17 / 40)) (Fin (17 / 40)) (Fin 0),
        handRotation := Vec3 (Fin 0) (Fin (- 3 / 20)) (Fin 0)\<rparr>"
proof -
  have l: "20 < length closed_fist"
    by (simp add: closed_fist_def)
  have c: "handCanvas (toggleHandControl ok_browser (loadModel init_world))"
    by (simp add: toggleHandControl_def loadMediaPipe_def ok_browser_def init_world_def loadModel_def)
  have d: "openness_spec closed_fist = 0"
    by (simp add: openness_spec_def dist_spec_def closed_fist_def)
  have n: "closed_fist ! 0 = Vec3 0 0 0" "closed_fist ! 4 = Vec3 0 0 0" "closed_fist ! 8 = Vec3 0 0 0"
    "closed_fist ! 9 = Vec3 0 0 0" "closed_fist ! 20 = Vec3 0 0 0"
    by (simp_all add: closed_fist_def)
  have z: "zoom_spec 0 = 1 / 2"
    by (simp add: zoom_spec_def normalized_spec_def clamp_spec_def)
  show ?thesis
    by (simp add: onHandResults_hand [OF c l] d n z)
       (simp add: toggleHandControl_def loadMediaPipe_def ok_browser_def init_world_def
          loadModel_def lerp1_Fin)
qed

lemma handZoom_frame:
  "handZoom (animate elapsed w) = handZoom w"
  "handZoom (toggleHandControl env w) = handZoom w"
  "handZoom (state_of (onScroll sy sh ih w)) = handZoom w"
  "handZoom (loadModel w) = handZoom w"
proof -
  show "handZoom (animate elapsed w) = handZoom w"
    by (simp add: animate_def Let_def split: option.splits)
  show "handZoom (toggleHandControl env w) = handZoom w"
    by (simp add: toggleHandControl_def loadMediaPipe_def toggle_catch_def Let_def
        split: awaited.splits)
  show "handZoom (state_of (onScroll sy sh ih w)) = handZoom w"
    by (simp add: onScroll_def Let_def split: option.splits)
  show "handZoom (loadModel w) = handZoom w"
    by (simp add: loadModel_def)
qed

lemma animate_fov:
  "camera_fov (animate elapsed w) =
     (if handControlEnabled w \<and> isHandDetected w \<and> aircraft w \<noteq> None
      then lerp1 (camera_fov w) (targetFov (handZoom w)) (Fin 0.1)
      else camera_fov w)"
  by (auto simp: animate_def Let_def split: option.splits)

lemma onHandResults_fov: "camera_fov (state_of (onHandResults r w)) = camera_fov w"
  by (simp add: onHandResults_def Let_def split: option.splits list.splits)

lemma detectHands_fov: "camera_fov (detectHands rs w) = camera_fov w"
  by (induction rs arbitrary: w) (simp_all add: onHandResults_fov)

lemma toggleHandControl_fov: "camera_fov (toggleHandControl env w) = camera_fov w"
  by (simp add: toggleHandControl_def loadMediaPipe_def toggle_catch_def Let_def
      split: awaited.splits)

lemma loadModel_fov: "camera_fov (loadModel w) = camera_fov w"
  by (simp add: loadModel_def)

lemma onWindowResize_fov:
  assumes "camera_fov w = Fin f" "0 < ih"
  shows "camera_fov (onWindowResize (Fin iw) (Fin ih) w) =
     Fin (if iw / ih < 16 / 9 then min (f * (1 + (16 / 9 - iw / ih) * 0.15)) 65 else f)"
  using assms
  by (simp add: onWindowResize_def Let_def Math_min_def jsub_def min_def)

lemma hand_lost_world_state:
  "handControlEnabled hand_lost_world" "\<not> isHandDetected hand_lost_world"
  "camera_fov hand_lost_world = Fin (1397 / 38)" "\<exists>a. aircraft hand_lost_world = Some a"
proof -
  let ?w = "toggleHandControl ok_browser (loadModel init_world)"
  have t: "handControlEnabled ?w" "hands ?w" "videoElement ?w" "handCanvas ?w"
    "camera_fov ?w = Fin 35" "aircraft ?w = aircraft (loadModel init_world)"
    by (simp_all add: toggleHandControl_def loadMediaPipe_def ok_browser_def init_world_def
        loadModel_def fixedCamera_fov_def)
  define v where "v = animate (Fin 0) (detectHands [js_results (Some [closed_fist])] ?w)"
  have v: "handControlEnabled v" "hands v" "videoElement v" "handCanvas v"
    "camera_fov v = Fin (1397 / 38)" "\<exists>a. aircraft v = Some a"
    unfolding v_def world_after_tick
    using t by (simp_all add: animate_def Let_def loadModel_def targetFov_def lerp1_Fin)
  have h: "hand_lost_world = detectHands [js_results None] v"
    by (simp add: hand_lost_world_def v_def)
  show "handControlEnabled hand_lost_world" "\<not> isHandDetected hand_lost_world"
    "camera_fov hand_lost_world = Fin (1397 / 38)" "\<exists>a. aircraft hand_lost_world = Some a"
    unfolding h using v by (simp_all add: onHandResults_def js_results_def)
qed

section \<open>Claims\<close>

text \<open>
  C4. The ease function of the scroll handler is \<open>4t\<^sup>3\<close> below one half and
  \<open>1 - (-2t + 2)\<^sup>3 / 2\<close> from one half on; it maps 0 to 0 and 1 to 1, and it is monotonic
  non-decreasing on the interval from 0 to 1.
\<close>

theorem C4_ease_boundaries_monotone:
  assumes "0 \<le> s" "s \<le> t" "t \<le> 1"
  shows "ease (Fin 0) = Fin 0 \<and> ease (Fin 1) = Fin 1
       \<and> ease (Fin s) = Fin (ease_spec s) \<and> ease (Fin t) = Fin (ease_spec t)
       \<and> ease_spec s \<le> ease_spec t"
  using ease_spec_mono [OF assms] by (simp add: ease_Fin ease_spec_def)

theorem C4_ease_witness:
  "ease (Fin 0) = Fin 0 \<and> ease (Fin 1) = Fin 1
   \<and> ease (Fin (1 / 4)) = Fin (1 / 16) \<and> ease (Fin (3 / 4)) = Fin (15 / 16)
   \<and> ease_spec (1 / 4) \<le> ease_spec (3 / 4)"
  using C4_ease_boundaries_monotone [of "1 / 4" "3 / 4"]
  by (simp add: ease_spec_def power3_eq_cube)

text \<open>
  C1. For every scroll progress \<open>p\<close> between 0 and 1, with the seven keyframes: when the
  section index \<open>\<lfloor>6p\<rfloor>\<close> is below 6, the target position and rotation of the aircraft
  are the component-wise linear interpolation between the keyframe of that index and the
  next one, at the eased blend value; when the section index is 6, which happens at
  \<open>p = 1\<close> only, the target is the last keyframe itself, without ease or blending; and at
  \<open>p = 0\<close> the target is keyframe 0 itself.
\<close>

theorem C1_scroll_target:
  assumes "jdiv scrollY (jsub scrollHeight innerHeight) = Fin p" "0 \<le> p" "p \<le> 1"
  shows "\<exists>w'. onScroll scrollY scrollHeight innerHeight w = Returned w'
    \<and> (\<lfloor>p * 6\<rfloor> < 6 \<longrightarrow>
         targetAircraftPosition w' =
           js_vec (lerp_spec (position (aircraftPositions ! nat \<lfloor>p * 6\<rfloor>))
             (position (aircraftPositions ! (nat \<lfloor>p * 6\<rfloor> + 1)))
             (ease_spec (p * 6 - of_int \<lfloor>p * 6\<rfloor>)))
       \<and> targetAircraftRotation w' =
           js_vec (lerp_spec (rotation (aircraftPositions ! nat \<lfloor>p * 6\<rfloor>))
             (rotation (aircraftPositions ! (nat \<lfloor>p * 6\<rfloor> + 1)))
             (ease_spec (p * 6 - of_int \<lfloor>p * 6\<rfloor>))))
    \<and> (\<lfloor>p * 6\<rfloor> = 6 \<longrightarrow>
         p = 1
       \<and> targetAircraftPosition w' = js_vec (position (aircraftPositions ! 6))
       \<and> targetAircraftRotation w' = js_vec (rotation (aircraftPositions ! 6)))
    \<and> (p = 0 \<longrightarrow>
         targetAircraftPosition w' = js_vec (position (aircraftPositions ! 0))
       \<and> targetAircraftRotation w' = js_vec (rotation (aircraftPositions ! 0)))"
proof (cases "p < 1")
  case True
  then have "\<lfloor>p * 6\<rfloor> \<noteq> 6"
    using floor_section_bounds(3) [of p] assms by simp
  moreover have "lerp_spec a b (ease_spec 0) = a" for a b :: "real vec3"
    by (cases a) (simp add: lerp_spec_def ease_spec_def)
  ultimately show ?thesis
    using onScroll_interp [OF assms(1,2) True, of w] by auto
next
  case False
  then have "p = 1" using assms by simp
  then show ?thesis
    using onScroll_end [of scrollY scrollHeight innerHeight w] assms(1) by simp
qed

theorem C1_scroll_target_witness:
  "jdiv (Fin 300) (jsub (Fin 1600) (Fin 400)) = Fin (1 / 4) \<and> (0::real) \<le> 1 / 4 \<and> (1::real) / 4 \<le> 1
   \<and> (\<exists>w'. onScroll (Fin 300) (Fin 1600) (Fin 400) init_world = Returned w'
        \<and> targetAircraftPosition w' = Vec3 (Fin (- 2)) (Fin 0) (Fin (3 / 2))
        \<and> targetAircraftRotation w' = Vec3 (Fin (3 / 10)) (Fin (232 / 100)) (Fin (- 1 / 10)))"
proof -
  have h: "jdiv (Fin 300) (jsub (Fin 1600) (Fin 400)) = Fin (1 / 4)"
    by (simp add: jsub_def)
  have f: "\<lfloor>(1::real) / 4 * 6\<rfloor> = 1"
    by (simp add: floor_eq_iff)
  show ?thesis
    using h C1_scroll_target [OF h, of init_world]
    by (simp add: f aircraftPositions_def Vector3_def js_vec_def lerp_spec_def ease_spec_def)
qed

text \<open>
  C2. For every scroll progress \<open>p\<close> between 0 and 1, with \<open>N = 7\<close>, the scroll handler
  computes the section index \<open>\<lfloor>6p\<rfloor>\<close> and the blend \<open>6p - \<lfloor>6p\<rfloor>\<close>, both functions of
  \<open>p\<close> alone; the blend lies in the half-open interval from 0 to 1, the section index
  lies between 0 and 5 for every \<open>p < 1\<close>, and it reaches 6 at \<open>p = 1\<close> only.
\<close>

theorem C2_section_and_blend:
  assumes "jdiv scrollY (jsub scrollHeight innerHeight) = Fin p" "0 \<le> p" "p \<le> 1"
  shows "total_count = Fin 7
    \<and> scrollProgress (state_of (onScroll scrollY scrollHeight innerHeight w)) = Fin p
    \<and> currentSection (state_of (onScroll scrollY scrollHeight innerHeight w)) = Fin (of_int \<lfloor>p * 6\<rfloor>)
    \<and> blend (Fin p) = Fin (p * 6 - of_int \<lfloor>p * 6\<rfloor>)
    \<and> 0 \<le> p * 6 - of_int \<lfloor>p * 6\<rfloor> \<and> p * 6 - of_int \<lfloor>p * 6\<rfloor> < 1
    \<and> 0 \<le> \<lfloor>p * 6\<rfloor> \<and> \<lfloor>p * 6\<rfloor> \<le> 6
    \<and> (p < 1 \<longrightarrow> \<lfloor>p * 6\<rfloor> \<le> 5)
    \<and> (\<lfloor>p * 6\<rfloor> = 6 \<longleftrightarrow> p = 1)"
proof -
  have st: "scrollProgress (state_of (onScroll scrollY scrollHeight innerHeight w)) = Fin p
    \<and> currentSection (state_of (onScroll scrollY scrollHeight innerHeight w)) = Fin (of_int \<lfloor>p * 6\<rfloor>)"
  proof (cases "p < 1")
    case True
    show ?thesis
      by (simp add: onScroll_interp [OF assms(1,2) True])
  next
    case False
    then have "p = 1" using assms by simp
    then show ?thesis
      using onScroll_end [of scrollY scrollHeight innerHeight w] assms(1) by simp
  qed
  have fr: "0 \<le> p * 6 - of_int \<lfloor>p * 6\<rfloor>" "p * 6 - of_int \<lfloor>p * 6\<rfloor> < 1"
    by linarith+
  show ?thesis
    using st fr floor_section_bounds [OF assms(2,3)]
    by (simp add: total_eq blend_Fin)
qed

theorem C2_section_and_blend_witness:
  "jdiv (Fin 300) (jsub (Fin 1600) (Fin 400)) = Fin (1 / 4)
   \<and> currentSection (state_of (onScroll (Fin 300) (Fin 1600) (Fin 400) init_world)) = Fin 1
   \<and> blend (Fin (1 / 4)) = Fin (1 / 2)"
proof -
  have h: "jdiv (Fin 300) (jsub (Fin 1600) (Fin 400)) = Fin (1 / 4)"
    by (simp add: jsub_def)
  have f: "\<lfloor>(1::real) / 4 * 6\<rfloor> = 1"
    by (simp add: floor_eq_iff)
  show ?thesis
    using h C2_section_and_blend [OF h, of init_world]
    by (simp add: f)
qed

text \<open>
  C6. For every average fingertip-to-palm distance \<open>d\<close>, the normalized openness is
  \<open>clamp((d - 0.08) / 0.15, 0, 1)\<close> and the target zoom is \<open>0.5 + normalized * 1.5\<close>, so
  the target zoom lies between 0.5 and 2.0; \<open>d = 0.08\<close> gives openness 0 and zoom 0.5,
  and \<open>d = 0.23\<close> gives openness 1 and zoom 2.0.
\<close>

theorem C6_zoom_mapping:
  "normalizedOpen (Fin d) = Fin (clamp_spec ((d - 0.08) / 0.15) 0 1)
   \<and> targetZoom (Fin d) = Fin (0.5 + clamp_spec ((d - 0.08) / 0.15) 0 1 * 1.5)
   \<and> 0.5 \<le> 0.5 + clamp_spec ((d - 0.08) / 0.15) 0 1 * 1.5
   \<and> 0.5 + clamp_spec ((d - 0.08) / 0.15) 0 1 * 1.5 \<le> 2.0
   \<and> normalizedOpen (Fin 0.08) = Fin 0 \<and> targetZoom (Fin 0.08) = Fin 0.5
   \<and> normalizedOpen (Fin 0.23) = Fin 1 \<and> targetZoom (Fin 0.23) = Fin 2.0"
  using zoom_spec_range [of d]
  by (simp add: normalizedOpen_Fin targetZoom_Fin zoom_spec_def normalized_spec_def clamp_spec_def)

text \<open>
  C10. The zoom signal \<open>handZoom\<close> stays between 0.5 and 2.0: it starts at 1.0, and every
  detection tick either leaves it alone or replaces it by
  \<open>handZoom + (targetZoom - handZoom) * 0.1\<close> with a target between 0.5 and 2.0, so the
  bounds hold after every sequence of ticks; the gesture mode's target field of view
  \<open>50 / handZoom\<close> is then a finite number (no division by zero) between 25 and 100.
  Frames, scroll events, switching the mode and loading the model leave the signal alone.
\<close>

theorem C10_zoom_invariant:
  assumes "zoom_in_range (handZoom w)"
  shows "handZoom init_world = Fin 1.0
    \<and> zoom_in_range (handZoom init_world)
    \<and> zoom_in_range (handZoom (detectHands (map js_results rs) w))
    \<and> (\<exists>z. handZoom (detectHands (map js_results rs) w) = Fin z
          \<and> 0.5 \<le> z \<and> z \<le> 2.0
          \<and> targetFov (handZoom (detectHands (map js_results rs) w)) = Fin (50 / z)
          \<and> 25 \<le> 50 / z \<and> 50 / z \<le> 100)
    \<and> handZoom (animate elapsed w) = handZoom w
    \<and> handZoom (toggleHandControl env w) = handZoom w
    \<and> handZoom (state_of (onScroll scrollY scrollHeight innerHeight w)) = handZoom w
    \<and> handZoom (loadModel w) = handZoom w"
proof -
  have inv: "zoom_in_range (handZoom (detectHands (map js_results rs) w))"
    using assms by (rule detectHands_zoom_in_range)
  then obtain z where z: "handZoom (detectHands (map js_results rs) w) = Fin z"
    and r: "1 / 2 \<le> z" "z \<le> 2"
    by (cases "handZoom (detectHands (map js_results rs) w)") auto
  have "25 \<le> 50 / z" "50 / z \<le> 100"
    using r by (simp_all add: field_simps)
  moreover have "targetFov (Fin z) = Fin (50 / z)"
    using r by (simp add: targetFov_def)
  ultimately show ?thesis
    using inv z r by (simp add: init_world_def handZoom_frame)
qed

theorem C10_zoom_invariant_witness:
  "zoom_in_range (handZoom (toggleHandControl ok_browser init_world))
   \<and> handZoom (detectHands (map js_results [Some [closed_fist]]) (toggleHandControl ok_browser init_world))
       = Fin (19 / 20)
   \<and> targetFov (handZoom (detectHands (map js_results [Some [closed_fist]])
        (toggleHandControl ok_browser init_world))) = Fin (1000 / 19)"
proof -
  have h: "zoom_in_range (handZoom (toggleHandControl ok_browser init_world))"
    by (simp add: toggleHandControl_def loadMediaPipe_def ok_browser_def init_world_def)
  have e: "handZoom (detectHands (map js_results [Some [closed_fist]]) (toggleHandControl ok_browser init_world))
       = Fin (19 / 20)"
    by (simp add: toggleHandControl_def loadMediaPipe_def ok_browser_def init_world_def
        onHandResults_hand closed_fist_def lerp1_Fin zoom_spec_def normalized_spec_def
        clamp_spec_def openness_spec_def dist_spec_def)
  show ?thesis
    using h e C10_zoom_invariant [OF h, of "[Some [closed_fist]]"]
    by (simp add: targetFov_def)
qed

text \<open>
  C5. Each update of the gesture filter is the exponential smoothing
  \<open>state += (rawTarget - state) * \<alpha>\<close>, with \<open>\<alpha> = 0.15\<close> for the three position and the
  three rotation components and \<open>\<alpha> = 0.1\<close> for the zoom. When the same landmarks arrive
  on \<open>k\<close> consecutive detection ticks, each signal is at \<open>T + (1 - \<alpha>)\<^sup>k (s\<^sub>0 - T)\<close> for
  its target \<open>T\<close> and its value \<open>s\<^sub>0\<close> before the ticks: its distance from the target
  shrinks by the factor \<open>(1 - \<alpha>)\<^sup>k\<close>, and the signal converges to the target.
\<close>

theorem C5_smoothing_converges:
  assumes "handControlEnabled w" "hands w" "videoElement w" "handCanvas w" "20 < length lm"
    and "handZoom w = Fin z0" "handPosition w = js_vec p0" "handRotation w = js_vec r0"
  shows "handZoom (detectHands (replicate k (js_results (Some (lm # hs)))) w)
      = Fin (smoothed 0.1 z0 (zoom_spec (openness_spec lm)) k)
    \<and> handPosition (detectHands (replicate k (js_results (Some (lm # hs)))) w)
      = Vec3 (Fin (smoothed 0.15 (vx p0) (vx (lm ! 8)) k))
             (Fin (smoothed 0.15 (vy p0) (vy (lm ! 8)) k))
             (Fin (smoothed 0.15 (vz p0) (vz (lm ! 8)) k))
    \<and> handRotation (detectHands (replicate k (js_results (Some (lm # hs)))) w)
      = Vec3 (Fin (smoothed 0.15 (vx r0) ((vy (lm ! 9) - vy (lm ! 0)) * 2) k))
             (Fin (smoothed 0.15 (vy r0) ((vx (lm ! 8) - 0.5) * 2) k))
             (Fin (smoothed 0.15 (vz r0) ((vy (lm ! 4) - vy (lm ! 20)) * 2) k))
    \<and> (\<forall>\<alpha> s T. smoothed \<alpha> s T 0 = s
          \<and> smoothed \<alpha> s T (Suc k) = smoothed \<alpha> s T k + (T - smoothed \<alpha> s T k) * \<alpha>)
    \<and> (\<forall>s T. \<bar>smoothed 0.1 s T k - T\<bar> = (1 - 0.1) ^ k * \<bar>s - T\<bar>
          \<and> \<bar>smoothed 0.15 s T k - T\<bar> = (1 - 0.15) ^ k * \<bar>s - T\<bar>
          \<and> (\<lambda>n. smoothed 0.1 s T n) \<longlonglongrightarrow> T
          \<and> (\<lambda>n. smoothed 0.15 s T n) \<longlonglongrightarrow> T)"
proof -
  have "\<bar>smoothed 0.1 s T k - T\<bar> = (1 - 0.1) ^ k * \<bar>s - T\<bar>" for s T
    using smoothed_distance [of "0.1" s T k] by simp
  moreover have "\<bar>smoothed 0.15 s T k - T\<bar> = (1 - 0.15) ^ k * \<bar>s - T\<bar>" for s T
    using smoothed_distance [of "0.15" s T k] by simp
  moreover have "(\<lambda>n. smoothed 0.1 s T n) \<longlonglongrightarrow> T" for s T
    by (rule smoothed_tendsto) simp_all
  moreover have "(\<lambda>n. smoothed 0.15 s T n) \<longlonglongrightarrow> T" for s T
    by (rule smoothed_tendsto) simp_all
  ultimately show ?thesis
    using detectHands_repeat [OF assms, of k hs] smoothed_0 smoothed_step
    by blast
qed

theorem C5_smoothing_converges_witness:
  "handControlEnabled (toggleHandControl ok_browser init_world)
   \<and> hands (toggleHandControl ok_browser init_world)
   \<and> videoElement (toggleHandControl ok_browser init_world)
   \<and> handCanvas (toggleHandControl ok_browser init_world)
   \<and> 20 < length open_hand
   \<and> handZoom (detectHands (replicate 2 (js_results (Some [open_hand])))
        (toggleHandControl ok_browser init_world)) = Fin (1 + 19 / 100)
   \<and> handPosition (detectHands (replicate 2 (js_results (Some [open_hand])))
        (toggleHandControl ok_browser init_world))
       = Vec3 (Fin (1 - (17 / 20)\<^sup>2 / 2)) (Fin ((17 / 20)\<^sup>2 / 2)) (Fin 0)"
proof -
  let ?w = "toggleHandControl ok_browser init_world"
  have g: "handControlEnabled ?w" "hands ?w" "videoElement ?w" "handCanvas ?w"
    by (simp_all add: toggleHandControl_def loadMediaPipe_def ok_browser_def init_world_def)
  have l: "20 < length open_hand"
    by (simp add: open_hand_def)
  have z: "handZoom ?w = Fin 1"
    by (simp add: toggleHandControl_def loadMediaPipe_def ok_browser_def init_world_def)
  have p: "handPosition ?w = js_vec (Vec3 (1 / 2) (1 / 2) 0)"
    by (simp add: toggleHandControl_def loadMediaPipe_def ok_browser_def init_world_def js_vec_Vec3)
  have r: "handRotation ?w = js_vec (Vec3 0 0 0)"
    by (simp add: toggleHandControl_def loadMediaPipe_def ok_browser_def init_world_def js_vec_Vec3)
  have d: "openness_spec open_hand = 1 / 4"
    by (simp add: openness_spec_def dist_spec_def open_hand_def)
  have i: "open_hand ! 8 = Vec3 1 0 0"
    by (simp add: open_hand_def)
  show ?thesis
    using g l C5_smoothing_converges [OF g l z p r, of 2 "[]"]
    by (simp add: d i smoothed_def zoom_spec_def normalized_spec_def clamp_spec_def power2_eq_square)
qed

text \<open>
  C3. On every render frame with the aircraft loaded, exactly one of the two control
  sources determines the transform the aircraft is moved toward: the gesture-derived
  target when \<open>handControlEnabled\<close> holds and a hand is detected, and the scroll-derived
  target in every other case (mode off, or mode on without a hand). In the first case the
  frame's result does not depend on the scroll targets, in the second it does not depend
  on the hand signals. The hand flag is set by each detection tick to whether that tick
  returned a hand.
\<close>

theorem C3_one_control_source:
  assumes "aircraft w = Some a"
  shows "aircraft (animate elapsed w) =
      Some (if handControlEnabled w \<and> isHandDetected w
            then follow a (gesture_target (handPosition w) (handRotation w))
                   (Fin 0.08) (Fin 0.06) elapsed
            else follow a (scroll_target (targetAircraftPosition w) (targetAircraftRotation w)
                   (scrollProgress w) elapsed) (Fin 0.04) (Fin 0.04) elapsed)
    \<and> (handControlEnabled w \<and> isHandDetected w \<longrightarrow>
         (\<forall>tp tr sp. aircraft (animate elapsed
             (w\<lparr>targetAircraftPosition := tp, targetAircraftRotation := tr, scrollProgress := sp\<rparr>))
           = aircraft (animate elapsed w)))
    \<and> (\<not> (handControlEnabled w \<and> isHandDetected w) \<longrightarrow>
         (\<forall>hp hr hz. aircraft (animate elapsed
             (w\<lparr>handPosition := hp, handRotation := hr, handZoom := hz\<rparr>))
           = aircraft (animate elapsed w)))
    \<and> (\<forall>r. handCanvas w \<longrightarrow> isHandDetected (state_of (onHandResults r w)) = hand_present r)"
  using assms by (auto simp: animate_aircraft onHandResults_detected)

theorem C3_one_control_source_witness:
  "aircraft (loadModel init_world) = Some \<lparr>position = Vec3 (Fin 10) (Fin 0) (Fin 0),
                                           rotation = Vec3 (Fin (157 / 100)) (Fin 0) (Fin 0)\<rparr>
   \<and> \<not> handControlEnabled (loadModel init_world)
   \<and> handCanvas (loadModel init_world)
   \<and> aircraft (animate (Fin 0) (loadModel init_world)) =
       Some \<lparr>position = Vec3 (Fin 10) (Fin (12 / 1000)) (Fin 0),
             rotation = Vec3 (Fin (15712 / 10000)) (Fin 0) (Fin 0)\<rparr>
   \<and> isHandDetected (state_of (onHandResults (Some [[]]) (loadModel init_world)))"
proof -
  have a: "aircraft (loadModel init_world) = Some \<lparr>position = Vec3 (Fin 10) (Fin 0) (Fin 0),
                                           rotation = Vec3 (Fin (157 / 100)) (Fin 0) (Fin 0)\<rparr>"
    by (simp add: loadModel_def aircraftPositions_def Vector3_def js_vec_def)
  have s: "\<not> handControlEnabled (loadModel init_world)" "handCanvas (loadModel init_world)"
    "targetAircraftPosition (loadModel init_world) = Vec3 (Fin 10) (Fin 0) (Fin 0)"
    "targetAircraftRotation (loadModel init_world) = Vec3 (Fin (157 / 100)) (Fin 0) (Fin 0)"
    "scrollProgress (loadModel init_world) = Fin 0"
    by (simp_all add: loadModel_def init_world_def aircraftPositions_def Vector3_def js_vec_def)
  show ?thesis
    using a s(1,2) C3_one_control_source [OF a, of "Fin 0"]
    by (simp add: s follow_def scroll_target_def Math_PI_def lerp1_Fin hand_present_def)
qed

text \<open>
  C7, as the code has it. When gesture mode is enabled but no hand is detected, the frame
  moves the aircraft toward the scroll-driven target and leaves the camera's field of
  view as it is. Of the handlers, a frame assigns the field of view in the gesture branch
  alone (toward \<open>50 / handZoom\<close>); detection ticks, switching the mode on or off and
  loading the model leave it unchanged; the scroll handler sets it to the configured base
  value 35 each time it runs; the resize handler leaves it unchanged at an aspect ratio of
  \<open>16 / 9\<close> or more and otherwise replaces it by
  \<open>min (fov * (1 + (16 / 9 - ratio) * 0.15), 65)\<close>.
\<close>

theorem C7_no_hand_fallback:
  assumes "handControlEnabled w" "\<not> isHandDetected w" "aircraft w = Some a"
  shows "aircraft (animate elapsed w) =
      Some (follow a (scroll_target (targetAircraftPosition w) (targetAircraftRotation w)
              (scrollProgress w) elapsed) (Fin 0.04) (Fin 0.04) elapsed)
    \<and> camera_fov (animate elapsed w) = camera_fov w
    \<and> (\<forall>(v::world) e. camera_fov (animate e v) =
          (if handControlEnabled v \<and> isHandDetected v \<and> aircraft v \<noteq> None
           then lerp1 (camera_fov v) (targetFov (handZoom v)) (Fin 0.1)
           else camera_fov v))
    \<and> (\<forall>(v::world) rs. camera_fov (detectHands rs v) = camera_fov v)
    \<and> (\<forall>(v::world) env. camera_fov (toggleHandControl env v) = camera_fov v)
    \<and> (\<forall>v::world. camera_fov (loadModel v) = camera_fov v)
    \<and> (\<forall>(v::world) scrollY scrollHeight innerHeight.
          camera_fov (state_of (onScroll scrollY scrollHeight innerHeight v)) = Fin 35)
    \<and> (\<forall>(v::world) f iw ih. camera_fov v = Fin f \<and> 0 < ih \<longrightarrow>
          camera_fov (onWindowResize (Fin iw) (Fin ih) v) =
            Fin (if iw / ih < 16 / 9 then min (f * (1 + (16 / 9 - iw / ih) * 0.15)) 65 else f))"
proof -
  have "aircraft (animate elapsed w) =
      Some (follow a (scroll_target (targetAircraftPosition w) (targetAircraftRotation w)
              (scrollProgress w) elapsed) (Fin 0.04) (Fin 0.04) elapsed)"
    using assms by (simp add: animate_aircraft)
  moreover have "camera_fov (animate elapsed w) = camera_fov w"
    using assms by (simp add: animate_fov)
  moreover have "camera_fov (state_of (onScroll sy sh ih v)) = Fin 35" for v sy sh ih
    by (simp add: onScroll_fov fixedCamera_fov_def)
  ultimately show ?thesis
    using animate_fov detectHands_fov toggleHandControl_fov loadModel_fov onWindowResize_fov
    by blast
qed

theorem C7_no_hand_fallback_witness:
  "handControlEnabled hand_lost_world \<and> \<not> isHandDetected hand_lost_world
   \<and> (\<exists>a. aircraft hand_lost_world = Some a
        \<and> aircraft (animate (Fin 1) hand_lost_world) =
            Some (follow a (scroll_target (targetAircraftPosition hand_lost_world)
               (targetAircraftRotation hand_lost_world) (scrollProgress hand_lost_world) (Fin 1))
               (Fin 0.04) (Fin 0.04) (Fin 1)))
   \<and> camera_fov hand_lost_world = Fin (1397 / 38)
   \<and> camera_fov (animate (Fin 1) hand_lost_world) = Fin (1397 / 38)
   \<and> camera_fov (detectHands [js_results None] hand_lost_world) = Fin (1397 / 38)
   \<and> camera_fov (toggleHandControl ok_browser hand_lost_world) = Fin (1397 / 38)
   \<and> camera_fov (state_of (onScroll (Fin 300) (Fin 1600) (Fin 400) hand_lost_world)) = Fin 35
   \<and> camera_fov (onWindowResize (Fin 1600) (Fin 900) hand_lost_world) = Fin (1397 / 38)
   \<and> camera_fov (onWindowResize (Fin 800) (Fin 600) hand_lost_world) = Fin (11176 / 285)"
proof -
  obtain a where a: "aircraft hand_lost_world = Some a"
    using hand_lost_world_state(4) by blast
  note c = C7_no_hand_fallback [OF hand_lost_world_state(1,2) a, of "Fin 1"]
  have f: "camera_fov hand_lost_world = Fin (1397 / 38)"
    by (rule hand_lost_world_state(3))
  have rz: "camera_fov (onWindowResize (Fin iw) (Fin ih) hand_lost_world) =
      Fin (if iw / ih < 16 / 9 then min (1397 / 38 * (1 + (16 / 9 - iw / ih) * 0.15)) 65
           else 1397 / 38)"
    if "0 < ih" for iw ih
    using c f that by blast
  have r1: "camera_fov (onWindowResize (Fin 1600) (Fin 900) hand_lost_world) = Fin (1397 / 38)"
    using rz [of 900 1600] by simp
  have r2: "camera_fov (onWindowResize (Fin 800) (Fin 600) hand_lost_world) = Fin (11176 / 285)"
    using rz [of 600 800] by simp
  have s: "camera_fov (state_of (onScroll (Fin 300) (Fin 1600) (Fin 400) hand_lost_world)) = Fin 35"
    using c by blast
  have "camera_fov (detectHands [js_results None] hand_lost_world) = camera_fov hand_lost_world"
    "camera_fov (toggleHandControl ok_browser hand_lost_world) = camera_fov hand_lost_world"
    "camera_fov (animate (Fin 1) hand_lost_world) = camera_fov hand_lost_world"
    "aircraft (animate (Fin 1) hand_lost_world) =
       Some (follow a (scroll_target (targetAircraftPosition hand_lost_world)
               (targetAircraftRotation hand_lost_world) (scrollProgress hand_lost_world) (Fin 1))
               (Fin 0.04) (Fin 0.04) (Fin 1))"
    using c by blast+
  then show ?thesis
    using hand_lost_world_state(1,2) a f r1 r2 s by simp
qed

text \<open>
  The frame does not move the field of view toward the base value: after one tick with a
  closed hand, one frame, and one tick without a hand, the field of view is \<open>1397 / 38\<close>
  before and after the next frame.
\<close>

theorem C7_fov_counterexample:
  "handControlEnabled hand_lost_world \<and> \<not> isHandDetected hand_lost_world
   \<and> camera_fov hand_lost_world = Fin (1397 / 38)
   \<and> camera_fov (animate (Fin 1) hand_lost_world) = Fin (1397 / 38)
   \<and> fixedCamera_fov = 35"
  using hand_lost_world_state(1-3) animate_fov [of "Fin 1" hand_lost_world]
  by (simp add: fixedCamera_fov_def)

text \<open>
  C8, as the code has it. When the scrollable range is zero (at scroll offset 0) the
  division is unguarded: the progress is \<^verbatim>\<open>NaN\<close>, and so are the section index and the
  blend; the handler returns normally, without clamp or error. The comparison of the
  section index with \<open>N - 1\<close> is false for \<^verbatim>\<open>NaN\<close>, so the two scroll targets are the
  last keyframe and hold no \<^verbatim>\<open>NaN\<close>. The \<^verbatim>\<open>NaN\<close> kept in \<open>scrollProgress\<close> reaches
  the aircraft's position in the scroll-driven branch of the next frame.
\<close>

theorem C8_zero_range_behaviour:
  assumes "jsub scrollHeight innerHeight = Fin 0"
  shows "\<exists>w'. onScroll (Fin 0) scrollHeight innerHeight w = Returned w'
    \<and> scrollProgress w' = NaN
    \<and> currentSection w' = NaN
    \<and> blend (scrollProgress w') = NaN
    \<and> targetAircraftPosition w' = js_vec (position (aircraftPositions ! 6))
    \<and> targetAircraftRotation w' = js_vec (rotation (aircraftPositions ! 6))
    \<and> \<not> has_NaN (targetAircraftPosition w')
    \<and> \<not> has_NaN (targetAircraftRotation w')
    \<and> (\<forall>elapsed a. aircraft w' = Some a \<and> \<not> (handControlEnabled w' \<and> isHandDetected w') \<longrightarrow>
          (\<exists>b. aircraft (animate elapsed w') = Some b
             \<and> vx (position b) = NaN \<and> vy (position b) = NaN \<and> vz (position b) = NaN))"
proof -
  let ?w = "state_of (onScroll (Fin 0) scrollHeight innerHeight w)"
  have r: "onScroll (Fin 0) scrollHeight innerHeight w = Returned ?w"
    by (simp add: onScroll_zero_range [OF assms])
  have f: "scrollProgress ?w = NaN" "currentSection ?w = NaN"
    "targetAircraftPosition ?w = js_vec (position (aircraftPositions ! 6))"
    "targetAircraftRotation ?w = js_vec (rotation (aircraftPositions ! 6))"
    by (simp_all add: onScroll_zero_range [OF assms])
  have b: "blend NaN = NaN"
    by (simp add: blend_def secProg_def jsub_def)
  have n: "\<not> has_NaN (js_vec v)" for v
    by (simp add: has_NaN_def)
  have "\<exists>b. aircraft (animate elapsed ?w) = Some b
      \<and> vx (position b) = NaN \<and> vy (position b) = NaN \<and> vz (position b) = NaN"
    if "aircraft ?w = Some a" "\<not> (handControlEnabled ?w \<and> isHandDetected ?w)" for elapsed a
    using that
    by (auto simp: animate_aircraft f(1) follow_def scroll_target_def jmul_NaN_right
        jadd_NaN_right lerp1_NaN_target)
  then show ?thesis
    using r f b n by (metis (no_types, lifting))
qed

theorem C8_zero_range_behaviour_witness:
  "jsub (Fin 800) (Fin 800) = Fin 0
   \<and> (\<exists>w'. onScroll (Fin 0) (Fin 800) (Fin 800) (loadModel init_world) = Returned w'
        \<and> scrollProgress w' = NaN
        \<and> currentSection w' = NaN
        \<and> targetAircraftPosition w' = Vec3 (Fin 0) (Fin (- 2)) (Fin 0)
        \<and> (\<exists>b. aircraft (animate (Fin 0) w') = Some b \<and> vx (position b) = NaN))"
proof -
  have h: "jsub (Fin 800) (Fin 800) = Fin 0"
    by (simp add: jsub_def)
  obtain w' where w': "onScroll (Fin 0) (Fin 800) (Fin 800) (loadModel init_world) = Returned w'"
    and f: "scrollProgress w' = NaN" "currentSection w' = NaN"
      "targetAircraftPosition w' = js_vec (position (aircraftPositions ! 6))"
    and a: "\<forall>elapsed a. aircraft w' = Some a \<and> \<not> (handControlEnabled w' \<and> isHandDetected w') \<longrightarrow>
          (\<exists>b. aircraft (animate elapsed w') = Some b
             \<and> vx (position b) = NaN \<and> vy (position b) = NaN \<and> vz (position b) = NaN)"
    using C8_zero_range_behaviour [OF h, of "loadModel init_world"] by blast
  have s: "w' = state_of (onScroll (Fin 0) (Fin 800) (Fin 800) (loadModel init_world))"
    by (simp add: w')
  have "\<exists>x. aircraft w' = Some x" "\<not> handControlEnabled w'"
    unfolding s by (simp_all add: onScroll_zero_range [OF h] loadModel_def init_world_def)
  then have "\<exists>b. aircraft (animate (Fin 0) w') = Some b \<and> vx (position b) = NaN"
    using a by blast
  then show ?thesis
    using h w' f by (simp add: aircraftPositions_def Vector3_def js_vec_def)
qed

text \<open>
  On a page whose scroll height equals the window height, the scroll targets after
  \<^verbatim>\<open>onScroll\<close> are the last keyframe, not \<^verbatim>\<open>NaN\<close>.
\<close>

theorem C8_zero_range_counterexample:
  "jsub (Fin 800) (Fin 800) = Fin 0
   \<and> (\<exists>w'. onScroll (Fin 0) (Fin 800) (Fin 800) init_world = Returned w'
        \<and> scrollProgress w' = NaN
        \<and> targetAircraftPosition w' = Vec3 (Fin 0) (Fin (- 2)) (Fin 0)
        \<and> targetAircraftRotation w' = Vec3 (Fin (1 / 2)) (Fin (29 / 10)) (Fin (- 1 / 2))
        \<and> \<not> has_NaN (targetAircraftPosition w')
        \<and> \<not> has_NaN (targetAircraftRotation w'))"
proof -
  have h: "jsub (Fin 800) (Fin 800) = Fin 0"
    by (simp add: jsub_def)
  show ?thesis
    using h
    by (simp add: onScroll_zero_range [OF h] aircraftPositions_def Vector3_def js_vec_def has_NaN_def)
qed

text \<open>
  C9. If the camera request fails while gesture mode is being enabled, the user sees one
  alert, \<open>handControlEnabled\<close> stays false, the button label is put back, no detection
  loop is started, and the camera is requested at most once: the control mode is the same
  after the failure as before.
\<close>

theorem C9_camera_failure_reverts:
  assumes "\<not> handControlEnabled w" "getUserMedia_result env = Rejects"
  shows "handControlEnabled (toggleHandControl env w) = handControlEnabled w
    \<and> \<not> handControlEnabled (toggleHandControl env w)
    \<and> alerts (toggleHandControl env w) = alerts w @ [''Camera access denied'']
    \<and> btn_innerHTML (toggleHandControl env w) = ''<span>HAND CONTROL</span>''
    \<and> detectHands_calls (toggleHandControl env w) = detectHands_calls w
    \<and> getUserMedia_calls (toggleHandControl env w) \<le> Suc (getUserMedia_calls w)
    \<and> video_srcObject (toggleHandControl env w) = video_srcObject w
    \<and> overlay_display (toggleHandControl env w) = overlay_display w
    \<and> isHandDetected (toggleHandControl env w) = isHandDetected w"
  using assms
  by (simp add: toggleHandControl_def loadMediaPipe_def toggle_catch_def Let_def)

theorem C9_camera_failure_reverts_witness:
  "\<not> handControlEnabled init_world \<and> getUserMedia_result denied_browser = Rejects
   \<and> \<not> handControlEnabled (toggleHandControl denied_browser init_world)
   \<and> alerts (toggleHandControl denied_browser init_world) = [''Camera access denied'']
   \<and> btn_innerHTML (toggleHandControl denied_browser init_world) = ''<span>HAND CONTROL</span>''
   \<and> detectHands_calls (toggleHandControl denied_browser init_world) = 0
   \<and> getUserMedia_calls (toggleHandControl denied_browser init_world) = 1"
proof -
  have h: "\<not> handControlEnabled init_world" "getUserMedia_result denied_browser = Rejects"
    by (simp_all add: init_world_def denied_browser_def)
  have c: "getUserMedia_calls (toggleHandControl denied_browser init_world) = 1"
    by (simp add: toggleHandControl_def loadMediaPipe_def toggle_catch_def denied_browser_def
        init_world_def)
  show ?thesis
    using h c C9_camera_failure_reverts [OF h]
    by (simp add: init_world_def)
qed

end
